theory Spec2Isabelle
  imports Main
begin

section \<open>Values, exceptions and Python's dictionary operations\<close>

text \<open>
  The handlers of \<^verbatim>\<open>app.py\<close> only move JSON-shaped Python values around: query
  strings, the request's JSON body, the dictionaries returned by the Spotipy client and
  the token dictionary of the OAuth manager. A Python dictionary is an association list
  read with \<open>map_of\<close> (its keys are distinct, so the first match is the only one).
  JSON numbers are Python ints here; floating point values are outside the model.
\<close>

datatype json =
    JNull
  | JBool bool
  | JInt int
  | JStr string
  | JArr "json list"
  | JObj "(string \<times> json) list"

text \<open>Python's truth value of an object, as tested by \<^verbatim>\<open>if not x\<close>.\<close>

fun truthy :: "json \<Rightarrow> bool" where
  "truthy JNull = False"
| "truthy (JBool b) = b"
| "truthy (JInt n) = (n \<noteq> 0)"
| "truthy (JStr s) = (s \<noteq> [])"
| "truthy (JArr xs) = (xs \<noteq> [])"
| "truthy (JObj kvs) = (kvs \<noteq> [])"

text \<open>
  The exceptions a handler can meet. \<open>SpotifyException m\<close> is any instance of
  \<^verbatim>\<open>spotipy.exceptions.SpotifyException\<close>, with \<open>m\<close> the text of \<^verbatim>\<open>str(e)\<close>.
  \<open>SpotifyOauthError\<close> is raised by the OAuth manager and is not a subclass of it.
  \<open>BadRequest\<close> is what \<^verbatim>\<open>request.json\<close> raises when the body is not JSON.
\<close>

datatype exn =
    SpotifyException string
  | SpotifyOauthError string
  | AttributeError
  | TypeError
  | BadRequest

definition bnd :: "exn + 'a \<Rightarrow> ('a \<Rightarrow> exn + 'b) \<Rightarrow> exn + 'b" where
  "bnd m f = (case m of Inl e \<Rightarrow> Inl e | Inr x \<Rightarrow> f x)"

text \<open>\<^verbatim>\<open>x.get(k, d)\<close>: only a dictionary has the method.\<close>

fun dict_get :: "json \<Rightarrow> string \<Rightarrow> json \<Rightarrow> exn + json" where
  "dict_get (JObj kvs) k d = Inr (case map_of kvs k of None \<Rightarrow> d | Some v \<Rightarrow> v)"
| "dict_get _ k d = Inl AttributeError"

text \<open>
  \<^verbatim>\<open>for x in v\<close>: a list yields its elements, a dictionary its keys, a string its
  characters; None, a bool and an int are not iterable.
\<close>

fun py_iter :: "json \<Rightarrow> exn + json list" where
  "py_iter (JArr xs) = Inr xs"
| "py_iter (JObj kvs) = Inr (map (\<lambda>kv. JStr (fst kv)) kvs)"
| "py_iter (JStr s) = Inr (map (\<lambda>c. JStr [c]) s)"
| "py_iter _ = Inl TypeError"

fun map_res :: "('a \<Rightarrow> exn + 'b) \<Rightarrow> 'a list \<Rightarrow> exn + 'b list" where
  "map_res f [] = Inr []"
| "map_res f (x # xs) = bnd (f x) (\<lambda>y. bnd (map_res f xs) (\<lambda>ys. Inr (y # ys)))"

section \<open>The request, the collaborators and what a handler leaves behind\<close>

text \<open>
  \<open>args\<close> is \<^verbatim>\<open>request.args\<close> (\<^verbatim>\<open>.get\<close> returns the first value of a key);
  \<open>json_body\<close> is \<^verbatim>\<open>request.json\<close>, \<open>None\<close> when reading it raises.
\<close>

record request =
  args :: "(string \<times> string) list"
  json_body :: "json option"

text \<open>
  The OAuth manager \<^verbatim>\<open>sp_oauth\<close> and the client \<^verbatim>\<open>sp\<close> are library objects; what
  each of their methods answers is a field of the environment. \<open>py_str\<close> is Python's
  \<^verbatim>\<open>str()\<close> of a value that is not a string.
\<close>

record env =
  get_cached_token :: "exn + json"
  get_authorize_url :: "string"
  get_access_token :: "string \<Rightarrow> exn + json"
  sp_search :: "string \<Rightarrow> string \<Rightarrow> exn + json"
  sp_track :: "string \<Rightarrow> exn + json"
  sp_current_user_playlists :: "exn + json"
  sp_playlist_add_items :: "string \<Rightarrow> json \<Rightarrow> exn + json"
  sp_start_playback :: "string list \<Rightarrow> exn + json"
  sp_add_to_queue :: "json \<Rightarrow> exn + json"
  py_str :: "json \<Rightarrow> string"

text \<open>Every call on a collaborator and every read of the request, in program order.\<close>

datatype event =
    GetCachedToken
  | GetAuthorizeUrl
  | GetAccessToken string
  | ReadArg string
  | ReadJson
  | SpSearch string string
  | SpTrack string
  | SpCurrentUserPlaylists
  | SpPlaylistAddItems string json
  | SpStartPlayback "string list"
  | SpAddToQueue json

fun is_remote :: "event \<Rightarrow> bool" where
  "is_remote (SpSearch q t) = True"
| "is_remote (SpTrack i) = True"
| "is_remote SpCurrentUserPlaylists = True"
| "is_remote (SpPlaylistAddItems i ts) = True"
| "is_remote (SpStartPlayback us) = True"
| "is_remote (SpAddToQueue t) = True"
| "is_remote _ = False"

text \<open>
  What the handler function does: return a body with a status (\<^verbatim>\<open>jsonify(x)\<close> alone
  is status 200), return a redirect, or let an exception escape to the framework.
\<close>

datatype outcome =
    Response nat json
  | Redirect string
  | Raised exn

definition error_body :: "string \<Rightarrow> json" where
  "error_body m = JObj [(''error'', JStr m)]"

definition not_authenticated :: "outcome" where
  "not_authenticated = Response 401 (error_body ''User not authenticated. Please log in via /login.'')"

definition success :: "outcome" where
  "success = Response 200 (JObj [(''status'', JStr ''success'')])"

section \<open>The gate and the authorization endpoints\<close>

definition require_authentication :: "env \<Rightarrow> (exn + bool \<times> json) \<times> event list" where
  "require_authentication e =
     (case get_cached_token e of
        Inl x \<Rightarrow> (Inl x, [GetCachedToken])
      | Inr token_info \<Rightarrow>
          if \<not> truthy token_info then (Inr (False, JNull), [GetCachedToken])
          else (Inr (True, token_info), [GetCachedToken]))"

definition login :: "env \<Rightarrow> outcome \<times> event list" where
  "login e = (Redirect (get_authorize_url e), [GetAuthorizeUrl])"

text \<open>
  \<^verbatim>\<open>if s:\<close> on the result of \<^verbatim>\<open>request.args.get\<close>: None and the empty string
  fail the test; \<open>given\<close> keeps the value when the test passes.
\<close>

fun given :: "string option \<Rightarrow> string option" where
  "given None = None"
| "given (Some s) = (if s = [] then None else Some s)"

definition callback :: "env \<Rightarrow> request \<Rightarrow> outcome \<times> event list" where
  "callback e req =
     (let code = map_of (args req) ''code'';
          error = map_of (args req) ''error'';
          tr = [ReadArg ''code'', ReadArg ''error'']
      in case given error of
           Some er \<Rightarrow> (Response 400 (error_body er), tr)
         | None \<Rightarrow>
            (case given code of
               Some c \<Rightarrow>
                 (case get_access_token e c of
                    Inl x \<Rightarrow> (Raised x, tr @ [GetAccessToken c])
                  | Inr token_info \<Rightarrow>
                      if truthy token_info
                      then (Response 200 (JObj [(''status'', JStr ''Authenticated successfully.'')]),
                            tr @ [GetAccessToken c])
                      else (Response 400 (error_body ''Authentication failed.''),
                            tr @ [GetAccessToken c]))
             | None \<Rightarrow> (Response 400 (error_body ''Authentication failed.''), tr)))"

section \<open>The search projection\<close>

text \<open>The dictionary built for one artist of the list comprehension.\<close>

definition artist_info :: "json \<Rightarrow> exn + json" where
  "artist_info artist =
     bnd (dict_get artist ''id'' JNull) (\<lambda>aid.
     bnd (dict_get artist ''name'' JNull) (\<lambda>aname.
     bnd (dict_get artist ''href'' JNull) (\<lambda>ahref.
       Inr (JObj [(''id'', aid), (''name'', aname), (''href'', ahref)]))))"

text \<open>\<^verbatim>\<open>track.get("album", {}).get(k)\<close>\<close>

definition album_get :: "json \<Rightarrow> string \<Rightarrow> exn + json" where
  "album_get track k = bnd (dict_get track ''album'' (JObj [])) (\<lambda>album. dict_get album k JNull)"

text \<open>The dictionary literal \<^verbatim>\<open>track_info\<close>, its values evaluated in the order written.\<close>

definition track_info :: "json \<Rightarrow> exn + json" where
  "track_info track =
     bnd (dict_get track ''id'' JNull) (\<lambda>tid.
     bnd (dict_get track ''name'' JNull) (\<lambda>tname.
     bnd (dict_get track ''artists'' (JArr [])) (\<lambda>arts.
     bnd (py_iter arts) (\<lambda>artists.
     bnd (map_res artist_info artists) (\<lambda>artist_dicts.
     bnd (album_get track ''id'') (\<lambda>al_id.
     bnd (album_get track ''name'') (\<lambda>al_name.
     bnd (album_get track ''release_date'') (\<lambda>al_date.
     bnd (album_get track ''total_tracks'') (\<lambda>al_total.
     bnd (album_get track ''images'') (\<lambda>al_images.
     bnd (album_get track ''href'') (\<lambda>al_href.
     bnd (dict_get track ''href'' JNull) (\<lambda>thref.
     bnd (dict_get track ''uri'' JNull) (\<lambda>turi.
     bnd (dict_get track ''preview_url'' JNull) (\<lambda>tprev.
     bnd (dict_get track ''popularity'' JNull) (\<lambda>tpop.
     bnd (dict_get track ''duration_ms'' JNull) (\<lambda>tdur.
       Inr (JObj [(''id'', tid), (''name'', tname), (''artists'', JArr artist_dicts),
                  (''album'', JObj [(''id'', al_id), (''name'', al_name),
                                    (''release_date'', al_date), (''total_tracks'', al_total),
                                    (''images'', al_images), (''href'', al_href)]),
                  (''href'', thref), (''uri'', turi), (''preview_url'', tprev),
                  (''popularity'', tpop), (''duration_ms'', tdur)])))))))))))))))))"

text \<open>The \<^verbatim>\<open>for track in tracks\<close> loop, appending to \<^verbatim>\<open>simplified_tracks\<close>.\<close>

fun simplify_loop :: "json list \<Rightarrow> json list \<Rightarrow> exn + json list" where
  "simplify_loop [] simplified_tracks = Inr simplified_tracks"
| "simplify_loop (track # rest) simplified_tracks =
     bnd (track_info track) (\<lambda>ti. simplify_loop rest (simplified_tracks @ [ti]))"

text \<open>Everything \<^verbatim>\<open>search_songs\<close> does with the client's answer.\<close>

definition simplify_results :: "json \<Rightarrow> exn + json list" where
  "simplify_results results =
     bnd (dict_get results ''tracks'' (JObj [])) (\<lambda>t.
     bnd (dict_get t ''items'' (JArr [])) (\<lambda>tracks.
     bnd (py_iter tracks) (\<lambda>ts. simplify_loop ts [])))"

section \<open>The gated handlers\<close>

definition search_songs :: "env \<Rightarrow> request \<Rightarrow> outcome \<times> event list" where
  "search_songs e req =
     (case require_authentication e of
        (Inl x, tr) \<Rightarrow> (Raised x, tr)
      | (Inr (authenticated, tok), tr) \<Rightarrow>
          if \<not> authenticated then (not_authenticated, tr)
          else
            (case given (map_of (args req) ''q'') of
               None \<Rightarrow> (Response 400 (error_body ''Missing query parameter''), tr @ [ReadArg ''q''])
             | Some query \<Rightarrow>
                 (case sp_search e query ''track'' of
                    Inl x \<Rightarrow> (Raised x, tr @ [ReadArg ''q'', SpSearch query ''track''])
                  | Inr results \<Rightarrow>
                      (case simplify_results results of
                         Inl x \<Rightarrow> (Raised x, tr @ [ReadArg ''q'', SpSearch query ''track''])
                       | Inr simplified_tracks \<Rightarrow>
                           (Response 200 (JArr simplified_tracks),
                            tr @ [ReadArg ''q'', SpSearch query ''track''])))))"

text \<open>
  \<^verbatim>\<open>except spotipy.exceptions.SpotifyException as e\<close>: that class is answered with
  status 400 and \<^verbatim>\<open>str(e)\<close>, any other exception escapes.
\<close>

fun except_spotify :: "exn \<Rightarrow> outcome" where
  "except_spotify (SpotifyException m) = Response 400 (error_body m)"
| "except_spotify x = Raised x"

definition get_track_details :: "env \<Rightarrow> string \<Rightarrow> outcome \<times> event list" where
  "get_track_details e tid =
     (case require_authentication e of
        (Inl x, tr) \<Rightarrow> (Raised x, tr)
      | (Inr (authenticated, tok), tr) \<Rightarrow>
          if \<not> authenticated then (not_authenticated, tr)
          else
            (case sp_track e tid of
               Inl x \<Rightarrow> (except_spotify x, tr @ [SpTrack tid])
             | Inr track \<Rightarrow> (Response 200 track, tr @ [SpTrack tid])))"

definition get_playlists :: "env \<Rightarrow> outcome \<times> event list" where
  "get_playlists e =
     (case require_authentication e of
        (Inl x, tr) \<Rightarrow> (Raised x, tr)
      | (Inr (authenticated, tok), tr) \<Rightarrow>
          if \<not> authenticated then (not_authenticated, tr)
          else
            (case sp_current_user_playlists e of
               Inl x \<Rightarrow> (Raised x, tr @ [SpCurrentUserPlaylists])
             | Inr playlists \<Rightarrow> (Response 200 playlists, tr @ [SpCurrentUserPlaylists])))"

text \<open>\<^verbatim>\<open>request.json.get(k)\<close>: reading the body may raise, and so may \<^verbatim>\<open>.get\<close>.\<close>

definition json_get :: "request \<Rightarrow> string \<Rightarrow> exn + json" where
  "json_get req k =
     (case json_body req of None \<Rightarrow> Inl BadRequest | Some b \<Rightarrow> dict_get b k JNull)"

definition add_to_playlist :: "env \<Rightarrow> request \<Rightarrow> string \<Rightarrow> outcome \<times> event list" where
  "add_to_playlist e req pid =
     (case require_authentication e of
        (Inl x, tr) \<Rightarrow> (Raised x, tr)
      | (Inr (authenticated, tok), tr) \<Rightarrow>
          if \<not> authenticated then (not_authenticated, tr)
          else
            (case json_get req ''track_ids'' of
               Inl x \<Rightarrow> (Raised x, tr @ [ReadJson])
             | Inr track_ids \<Rightarrow>
                 if \<not> truthy track_ids
                 then (Response 400 (error_body ''Missing track_ids parameter''), tr @ [ReadJson])
                 else
                   (case sp_playlist_add_items e pid track_ids of
                      Inl x \<Rightarrow> (except_spotify x, tr @ [ReadJson, SpPlaylistAddItems pid track_ids])
                    | Inr r \<Rightarrow> (success, tr @ [ReadJson, SpPlaylistAddItems pid track_ids]))))"

text \<open>
  The replacement field of the f-string \<^verbatim>\<open>f'spotify:track:{track_id}'\<close>: a string is
  inserted as it is, any other value through \<^verbatim>\<open>str()\<close>.
\<close>

fun format_value :: "env \<Rightarrow> json \<Rightarrow> string" where
  "format_value e (JStr s) = s"
| "format_value e v = py_str e v"

definition play_song :: "env \<Rightarrow> request \<Rightarrow> outcome \<times> event list" where
  "play_song e req =
     (case require_authentication e of
        (Inl x, tr) \<Rightarrow> (Raised x, tr)
      | (Inr (authenticated, tok), tr) \<Rightarrow>
          if \<not> authenticated then (not_authenticated, tr)
          else
            (case json_get req ''track_id'' of
               Inl x \<Rightarrow> (Raised x, tr @ [ReadJson])
             | Inr track_id \<Rightarrow>
                 if \<not> truthy track_id
                 then (Response 400 (error_body ''Missing track_id parameter''), tr @ [ReadJson])
                 else
                   (case sp_start_playback e [''spotify:track:'' @ format_value e track_id] of
                      Inl x \<Rightarrow> (except_spotify x, tr @ [ReadJson, SpStartPlayback [''spotify:track:'' @ format_value e track_id]])
                    | Inr r \<Rightarrow> (success, tr @ [ReadJson, SpStartPlayback [''spotify:track:'' @ format_value e track_id]]))))"

definition queue_song :: "env \<Rightarrow> request \<Rightarrow> outcome \<times> event list" where
  "queue_song e req =
     (case require_authentication e of
        (Inl x, tr) \<Rightarrow> (Raised x, tr)
      | (Inr (authenticated, tok), tr) \<Rightarrow>
          if \<not> authenticated then (not_authenticated, tr)
          else
            (case json_get req ''track_id'' of
               Inl x \<Rightarrow> (Raised x, tr @ [ReadJson])
             | Inr track_id \<Rightarrow>
                 if \<not> truthy track_id
                 then (Response 400 (error_body ''Missing track_id parameter''), tr @ [ReadJson])
                 else
                   (case sp_add_to_queue e track_id of
                      Inl x \<Rightarrow> (except_spotify x, tr @ [ReadJson, SpAddToQueue track_id])
                    | Inr r \<Rightarrow> (success, tr @ [ReadJson, SpAddToQueue track_id]))))"

text \<open>The routes registered with \<^verbatim>\<open>@app.route\<close> whose handler starts at the gate.\<close>

datatype gated_route =
    GetSearch
  | GetTrack string
  | GetPlaylists
  | PostPlaylistTracks string
  | PutPlay
  | PostQueue

fun gated :: "env \<Rightarrow> request \<Rightarrow> gated_route \<Rightarrow> outcome \<times> event list" where
  "gated e req GetSearch = search_songs e req"
| "gated e req (GetTrack tid) = get_track_details e tid"
| "gated e req GetPlaylists = get_playlists e"
| "gated e req (PostPlaylistTracks pid) = add_to_playlist e req pid"
| "gated e req PutPlay = play_song e req"
| "gated e req PostQueue = queue_song e req"

text \<open>The gate let the request through: \<^verbatim>\<open>authenticated\<close> came back true.\<close>

definition gate_passed :: "env \<Rightarrow> bool" where
  "gate_passed e =
     (case fst (require_authentication e) of Inl x \<Rightarrow> False | Inr (authenticated, tok) \<Rightarrow> authenticated)"

section \<open>The search projection, as the interface describes it\<close>

text \<open>
  The reduced form of a track, written from the description of the search response and
  not from the handler: every scalar field is the remote field or null, the album summary
  has its six fields (each the album's field or null), and each artist is reduced to id,
  name and href. A track without artists has the empty list, a track without album has
  the summary of nulls.
\<close>

fun fields :: "json \<Rightarrow> (string \<times> json) list" where
  "fields (JObj kvs) = kvs"
| "fields _ = []"

fun elements :: "json \<Rightarrow> json list" where
  "elements (JArr xs) = xs"
| "elements _ = []"

definition field_or_null :: "json \<Rightarrow> string \<Rightarrow> json" where
  "field_or_null v k = (case map_of (fields v) k of None \<Rightarrow> JNull | Some x \<Rightarrow> x)"

definition artist_projection :: "json \<Rightarrow> json" where
  "artist_projection a =
     JObj [(''id'', field_or_null a ''id''), (''name'', field_or_null a ''name''),
           (''href'', field_or_null a ''href'')]"

definition album_projection :: "json \<Rightarrow> json" where
  "album_projection a =
     JObj [(''id'', field_or_null a ''id''), (''name'', field_or_null a ''name''),
           (''release_date'', field_or_null a ''release_date''),
           (''total_tracks'', field_or_null a ''total_tracks''),
           (''images'', field_or_null a ''images''), (''href'', field_or_null a ''href'')]"

definition track_projection :: "json \<Rightarrow> json" where
  "track_projection t =
     JObj [(''id'', field_or_null t ''id''), (''name'', field_or_null t ''name''),
           (''artists'', JArr (map artist_projection (elements (field_or_null t ''artists'')))),
           (''album'', album_projection (field_or_null t ''album'')),
           (''href'', field_or_null t ''href''), (''uri'', field_or_null t ''uri''),
           (''preview_url'', field_or_null t ''preview_url''),
           (''popularity'', field_or_null t ''popularity''),
           (''duration_ms'', field_or_null t ''duration_ms'')]"

definition reduced_keys :: "string list" where
  "reduced_keys = [''id'', ''name'', ''artists'', ''album'', ''href'', ''uri'', ''preview_url'',
                   ''popularity'', ''duration_ms'']"

fun is_obj :: "json \<Rightarrow> bool" where
  "is_obj (JObj kvs) = True"
| "is_obj _ = False"

text \<open>
  A track item of the remote shape: a dictionary whose album, when it has one, is a
  dictionary and whose artists, when it has them, are a list of dictionaries.
\<close>

definition track_shaped :: "json \<Rightarrow> bool" where
  "track_shaped t =
     (is_obj t \<and>
      (case map_of (fields t) ''album'' of None \<Rightarrow> True | Some a \<Rightarrow> is_obj a) \<and>
      (case map_of (fields t) ''artists'' of None \<Rightarrow> True
       | Some (JArr xs) \<Rightarrow> list_all is_obj xs
       | Some _ \<Rightarrow> False))"

section \<open>Example environments and requests\<close>

definition token0 :: "json" where
  "token0 = JObj [(''access_token'', JStr ''BQC''), (''refresh_token'', JStr ''AQD''),
                  (''expires_at'', JInt 1700003600)]"

definition track0 :: "json" where
  "track0 = JObj [(''id'', JStr ''abc123''), (''name'', JStr ''Song''),
                  (''artists'', JArr [JObj [(''id'', JStr ''ar1''), (''name'', JStr ''Band'')]]),
                  (''album'', JObj [(''id'', JStr ''al1''), (''total_tracks'', JInt 9)]),
                  (''uri'', JStr ''spotify:track:abc123''), (''duration_ms'', JInt 1000),
                  (''disc_number'', JInt 1)]"

text \<open>A logged-in session whose remote calls all succeed.\<close>

definition env_ok :: "env" where
  "env_ok = \<lparr> get_cached_token = Inr token0,
              get_authorize_url = ''https://accounts.spotify.com/authorize'',
              get_access_token = (\<lambda>c. Inr token0),
              sp_search = (\<lambda>q t. Inr (JObj [(''tracks'', JObj [(''items'', JArr [track0, JObj []])])])),
              sp_track = (\<lambda>i. Inr track0),
              sp_current_user_playlists = Inr (JObj [(''items'', JArr [])]),
              sp_playlist_add_items = (\<lambda>i ts. Inr (JObj [(''snapshot_id'', JStr ''s1'')])),
              sp_start_playback = (\<lambda>us. Inr JNull),
              sp_add_to_queue = (\<lambda>t. Inr JNull),
              py_str = (\<lambda>v. ''?'') \<rparr>"

text \<open>No login has happened: the OAuth manager has no token to give.\<close>

definition env_logged_out :: "env" where
  "env_logged_out = env_ok \<lparr> get_cached_token := Inr JNull \<rparr>"

text \<open>A logged-in session whose remote calls are all rejected by the remote API.\<close>

definition env_rejecting :: "env" where
  "env_rejecting =
     env_ok \<lparr> sp_search := (\<lambda>q t. Inl (SpotifyException ''http status: 429'')),
              sp_track := (\<lambda>i. Inl (SpotifyException ''http status: 429'')),
              sp_current_user_playlists := Inl (SpotifyException ''http status: 429''),
              sp_playlist_add_items := (\<lambda>i ts. Inl (SpotifyException ''http status: 429'')),
              sp_start_playback := (\<lambda>us. Inl (SpotifyException ''http status: 429'')),
              sp_add_to_queue := (\<lambda>t. Inl (SpotifyException ''http status: 429'')) \<rparr>"

text \<open>A logged-in session whose search finds one track item with no field at all.\<close>

definition env_bare :: "env" where
  "env_bare =
     env_ok \<lparr> sp_search := (\<lambda>q t. Inr (JObj [(''tracks'', JObj [(''items'', JArr [JObj []])])])) \<rparr>"

definition req_of :: "(string \<times> string) list \<Rightarrow> json option \<Rightarrow> request" where
  "req_of a b = \<lparr> args = a, json_body = b \<rparr>"

section \<open>Facts about the gate\<close>

lemmas handler_defs =
  search_songs_def get_track_details_def get_playlists_def add_to_playlist_def
  play_song_def queue_song_def

lemmas example_defs =
  env_ok_def env_logged_out_def env_rejecting_def env_bare_def req_of_def token0_def track0_def

lemma gate_open:
  assumes "gate_passed e"
  shows "\<exists>tok. require_authentication e = (Inr (True, tok), [GetCachedToken])"
  using assms
  by (auto simp: gate_passed_def require_authentication_def split: sum.splits if_splits)

lemma gate_shut:
  assumes "\<not> gate_passed e"
  shows "(\<exists>x. require_authentication e = (Inl x, [GetCachedToken]))
         \<or> require_authentication e = (Inr (False, JNull), [GetCachedToken])"
  using assms
  by (auto simp: gate_passed_def require_authentication_def split: sum.splits if_splits)

lemma gate_passed_iff:
  "gate_passed e = (case get_cached_token e of Inl x \<Rightarrow> False | Inr tok \<Rightarrow> truthy tok)"
  by (simp add: gate_passed_def require_authentication_def split: sum.splits)

lemma gate_passed_env_ok: "gate_passed env_ok"
  by (simp add: gate_passed_iff example_defs)

lemma gate_passed_env_rejecting: "gate_passed env_rejecting"
  by (simp add: gate_passed_iff example_defs)

lemma gate_shut_env_logged_out: "\<not> gate_passed env_logged_out"
  by (simp add: gate_passed_iff example_defs)

text \<open>
  C1. On each of the six gated routes the call of the gate is the first thing the handler
  does with the request; a call of the remote API occurs in the handler's run only when
  the gate of that run let the request through; and when the gate does not, the handler
  does nothing at all after the gate.
\<close>

theorem gate_first:
  "take 1 (snd (gated e req r)) = [GetCachedToken]
   \<and> (list_ex is_remote (snd (gated e req r)) \<longrightarrow> gate_passed e)
   \<and> (\<not> gate_passed e \<longrightarrow> snd (gated e req r) = [GetCachedToken])"
proof (cases "gate_passed e")
  case True
  then obtain tok where "require_authentication e = (Inr (True, tok), [GetCachedToken])"
    using gate_open by blast
  with True show ?thesis
    by (cases r) (auto simp: handler_defs split: sum.splits option.splits)
next
  case False
  from gate_shut[OF False] False show ?thesis
    by (cases r) (auto simp: handler_defs not_authenticated_def)
qed

theorem gate_first_witness:
  "list_ex is_remote (snd (gated env_ok (req_of [] (Some (JObj [(''track_id'', JStr ''abc123'')]))) PutPlay))
   \<and> gate_passed env_ok
   \<and> \<not> gate_passed env_logged_out
   \<and> snd (gated env_logged_out (req_of [(''q'', ''song'')] None) GetSearch) = [GetCachedToken]"
proof -
  let ?r = "req_of [] (Some (JObj [(''track_id'', JStr ''abc123'')]))"
  have called: "list_ex is_remote (snd (gated env_ok ?r PutPlay))"
    by (simp add: play_song_def require_authentication_def json_get_def example_defs)
  have passed: "gate_passed env_ok"
    using gate_first [of env_ok ?r PutPlay] called by blast
  have shut: "\<not> gate_passed env_logged_out"
    by (rule gate_shut_env_logged_out)
  have idle: "snd (gated env_logged_out (req_of [(''q'', ''song'')] None) GetSearch) = [GetCachedToken]"
    using gate_first [of env_logged_out "req_of [(''q'', ''song'')] None" GetSearch] shut by blast
  from called passed shut idle show ?thesis by blast
qed

section \<open>Rejections before the remote call\<close>

text \<open>
  C2. When the OAuth manager has no token to give (the cache holds no token record, so
  \<^verbatim>\<open>get_cached_token\<close> returns None or another empty value), every gated route answers
  401 with the body \<^verbatim>\<open>{"error": "User not authenticated. Please log in via /login."}\<close>,
  and the handler calls nothing but the gate: no remote call is made.
\<close>

theorem empty_cache_401:
  assumes "get_cached_token e = Inr tok" and "\<not> truthy tok"
  shows "gated e req r =
           (Response 401 (JObj [(''error'', JStr ''User not authenticated. Please log in via /login.'')]),
            [GetCachedToken])
         \<and> \<not> list_ex is_remote (snd (gated e req r))"
proof -
  have "require_authentication e = (Inr (False, JNull), [GetCachedToken])"
    using assms by (simp add: require_authentication_def)
  then show ?thesis
    by (cases r) (simp_all add: handler_defs not_authenticated_def error_body_def)
qed

theorem empty_cache_401_witness:
  "get_cached_token env_logged_out = Inr JNull \<and> \<not> truthy JNull
   \<and> gated env_logged_out (req_of [] (Some (JObj [(''track_id'', JStr ''abc123'')]))) PostQueue =
       (Response 401 (JObj [(''error'', JStr ''User not authenticated. Please log in via /login.'')]),
        [GetCachedToken])"
proof -
  have a: "get_cached_token env_logged_out = Inr JNull" by (simp add: example_defs)
  have b: "\<not> truthy JNull" by simp
  from empty_cache_401 [OF a b, of "req_of [] (Some (JObj [(''track_id'', JStr ''abc123'')]))" PostQueue] a b
  show ?thesis by blast
qed

text \<open>
  C8. An authenticated POST /queue whose JSON body is a dictionary without
  \<^verbatim>\<open>track_id\<close> answers 400 with \<^verbatim>\<open>{"error": "Missing track_id parameter"}\<close>; the
  handler has called the gate and read the body, and made no remote call.
\<close>

theorem queue_missing_track_id:
  assumes "gate_passed e" and "json_body req = Some (JObj kvs)" and "map_of kvs ''track_id'' = None"
  shows "queue_song e req =
           (Response 400 (JObj [(''error'', JStr ''Missing track_id parameter'')]), [GetCachedToken, ReadJson])
         \<and> \<not> list_ex is_remote (snd (queue_song e req))"
proof -
  obtain tok where "require_authentication e = (Inr (True, tok), [GetCachedToken])"
    using gate_open[OF assms(1)] by blast
  moreover have "json_get req ''track_id'' = Inr JNull"
    using assms(2,3) by (simp add: json_get_def)
  ultimately show ?thesis
    by (simp add: queue_song_def error_body_def)
qed

theorem queue_missing_track_id_witness:
  "gate_passed env_ok \<and> json_body (req_of [] (Some (JObj []))) = Some (JObj [])
   \<and> map_of ([] :: (string \<times> json) list) ''track_id'' = None
   \<and> queue_song env_ok (req_of [] (Some (JObj []))) =
       (Response 400 (JObj [(''error'', JStr ''Missing track_id parameter'')]), [GetCachedToken, ReadJson])"
proof -
  have b: "json_body (req_of [] (Some (JObj []))) = Some (JObj [])" by (simp add: req_of_def)
  have c: "map_of ([] :: (string \<times> json) list) ''track_id'' = None" by simp
  from queue_missing_track_id [OF gate_passed_env_ok b c] gate_passed_env_ok b c
  show ?thesis by blast
qed

text \<open>
  C9. For an authenticated request, a required parameter that is present with a false
  truth value (the empty list of \<^verbatim>\<open>track_ids\<close>, the empty string as
  \<^verbatim>\<open>track_id\<close>, the empty string as \<^verbatim>\<open>q\<close>, or any other empty value) is answered as a
  missing parameter, with status 400, on POST /playlists/<id>/tracks, PUT /play,
  POST /queue and GET /search, and no remote call is made.
\<close>

theorem falsy_parameter_rejected:
  assumes "gate_passed e"
  shows "(json_body req = Some (JObj kvs) \<and> map_of kvs ''track_ids'' = Some v \<and> \<not> truthy v \<longrightarrow>
            fst (add_to_playlist e req pid) = Response 400 (JObj [(''error'', JStr ''Missing track_ids parameter'')])
            \<and> \<not> list_ex is_remote (snd (add_to_playlist e req pid)))
       \<and> (json_body req = Some (JObj kvs) \<and> map_of kvs ''track_id'' = Some v \<and> \<not> truthy v \<longrightarrow>
            fst (play_song e req) = Response 400 (JObj [(''error'', JStr ''Missing track_id parameter'')])
            \<and> \<not> list_ex is_remote (snd (play_song e req))
            \<and> fst (queue_song e req) = Response 400 (JObj [(''error'', JStr ''Missing track_id parameter'')])
            \<and> \<not> list_ex is_remote (snd (queue_song e req)))
       \<and> (map_of (args req) ''q'' = Some [] \<longrightarrow>
            fst (search_songs e req) = Response 400 (JObj [(''error'', JStr ''Missing query parameter'')])
            \<and> \<not> list_ex is_remote (snd (search_songs e req)))"
proof -
  obtain tok where g: "require_authentication e = (Inr (True, tok), [GetCachedToken])"
    using gate_open[OF assms] by blast
  show ?thesis
    by (simp add: g handler_defs json_get_def error_body_def)
qed

theorem falsy_parameter_rejected_witness:
  "fst (add_to_playlist env_ok (req_of [] (Some (JObj [(''track_ids'', JArr [])]))) ''pl1'')
     = Response 400 (JObj [(''error'', JStr ''Missing track_ids parameter'')])
   \<and> fst (play_song env_ok (req_of [] (Some (JObj [(''track_id'', JStr [])]))))
     = Response 400 (JObj [(''error'', JStr ''Missing track_id parameter'')])
   \<and> fst (queue_song env_ok (req_of [] (Some (JObj [(''track_id'', JStr [])]))))
     = Response 400 (JObj [(''error'', JStr ''Missing track_id parameter'')])
   \<and> fst (search_songs env_ok (req_of [(''q'', [])] None))
     = Response 400 (JObj [(''error'', JStr ''Missing query parameter'')])"
proof -
  have 1: "json_body (req_of [] (Some (JObj [(''track_ids'', JArr [])]))) = Some (JObj [(''track_ids'', JArr [])])
           \<and> map_of [(''track_ids'', JArr [])] ''track_ids'' = Some (JArr []) \<and> \<not> truthy (JArr [])"
    by (simp add: req_of_def)
  have 2: "json_body (req_of [] (Some (JObj [(''track_id'', JStr [])]))) = Some (JObj [(''track_id'', JStr [])])
           \<and> map_of [(''track_id'', JStr [])] ''track_id'' = Some (JStr []) \<and> \<not> truthy (JStr [])"
    by (simp add: req_of_def)
  have 3: "map_of (args (req_of [(''q'', [])] None)) ''q'' = Some []"
    by (simp add: req_of_def)
  from falsy_parameter_rejected [OF gate_passed_env_ok, of "req_of [] (Some (JObj [(''track_ids'', JArr [])]))" "[(''track_ids'', JArr [])]" "JArr []" "''pl1''"] 1
  have a: "fst (add_to_playlist env_ok (req_of [] (Some (JObj [(''track_ids'', JArr [])]))) ''pl1'')
     = Response 400 (JObj [(''error'', JStr ''Missing track_ids parameter'')])" by blast
  from falsy_parameter_rejected [OF gate_passed_env_ok, of "req_of [] (Some (JObj [(''track_id'', JStr [])]))" "[(''track_id'', JStr [])]" "JStr []"] 2
  have b: "fst (play_song env_ok (req_of [] (Some (JObj [(''track_id'', JStr [])]))))
     = Response 400 (JObj [(''error'', JStr ''Missing track_id parameter'')])
   \<and> fst (queue_song env_ok (req_of [] (Some (JObj [(''track_id'', JStr [])]))))
     = Response 400 (JObj [(''error'', JStr ''Missing track_id parameter'')])" by blast
  from falsy_parameter_rejected [OF gate_passed_env_ok, of "req_of [(''q'', [])] None"] 3
  have c: "fst (search_songs env_ok (req_of [(''q'', [])] None))
     = Response 400 (JObj [(''error'', JStr ''Missing query parameter'')])" by blast
  from a b c show ?thesis by blast
qed

text \<open>
  C10. For an authenticated PUT /play whose \<^verbatim>\<open>track_id\<close> is not empty, the handler
  makes exactly one remote call, \<^verbatim>\<open>start_playback\<close>, and its \<^verbatim>\<open>uris\<close> is the
  one-element list holding \<^verbatim>\<open>spotify:track:\<close> followed by the track id as the f-string
  formats it: the id itself when it is a string.
\<close>

theorem play_wraps_track_id:
  assumes "gate_passed e" and "json_body req = Some (JObj kvs)"
    and "map_of kvs ''track_id'' = Some v" and "truthy v"
  shows "filter is_remote (snd (play_song e req))
           = [SpStartPlayback [''spotify:track:'' @ format_value e v]]
         \<and> (v = JStr s \<longrightarrow>
              filter is_remote (snd (play_song e req)) = [SpStartPlayback [''spotify:track:'' @ s]])"
proof -
  obtain tok where g: "require_authentication e = (Inr (True, tok), [GetCachedToken])"
    using gate_open[OF assms(1)] by blast
  have "json_get req ''track_id'' = Inr v"
    using assms(2,3) by (simp add: json_get_def)
  with g assms(4) have "filter is_remote (snd (play_song e req))
           = [SpStartPlayback [''spotify:track:'' @ format_value e v]]"
    by (simp add: play_song_def split: sum.splits)
  then show ?thesis by auto
qed

theorem play_wraps_track_id_witness:
  "truthy (JStr ''abc123'')
   \<and> filter is_remote (snd (play_song env_ok (req_of [] (Some (JObj [(''track_id'', JStr ''abc123'')])))))
     = [SpStartPlayback [''spotify:track:abc123'']]"
proof -
  have b: "json_body (req_of [] (Some (JObj [(''track_id'', JStr ''abc123'')])))
             = Some (JObj [(''track_id'', JStr ''abc123'')])"
    by (simp add: req_of_def)
  have c: "map_of [(''track_id'', JStr ''abc123'')] ''track_id'' = Some (JStr ''abc123'')" by simp
  have d: "truthy (JStr ''abc123'')" by simp
  from play_wraps_track_id [OF gate_passed_env_ok b c d, of "''abc123''"] d show ?thesis by simp
qed

section \<open>The search response\<close>

lemma artist_info_obj:
  assumes "is_obj a"
  shows "artist_info a = Inr (artist_projection a)"
  using assms
  by (cases a) (simp_all add: artist_info_def artist_projection_def field_or_null_def bnd_def)

lemma map_res_artists:
  assumes "list_all is_obj xs"
  shows "map_res artist_info xs = Inr (map artist_projection xs)"
  using assms
  by (induction xs) (simp_all add: artist_info_obj bnd_def)

lemma album_get_obj:
  assumes "case map_of kvs ''album'' of None \<Rightarrow> True | Some a \<Rightarrow> is_obj a"
  shows "album_get (JObj kvs) k = Inr (field_or_null (field_or_null (JObj kvs) ''album'') k)"
proof (cases "map_of kvs ''album''")
  case None
  then show ?thesis by (simp add: album_get_def bnd_def field_or_null_def)
next
  case (Some a)
  with assms obtain avs where "a = JObj avs" by (cases a) simp_all
  with Some show ?thesis by (simp add: album_get_def bnd_def field_or_null_def)
qed

lemma artists_obj:
  assumes "case map_of kvs ''artists'' of None \<Rightarrow> True | Some (JArr xs) \<Rightarrow> list_all is_obj xs | Some _ \<Rightarrow> False"
  shows "bnd (dict_get (JObj kvs) ''artists'' (JArr [])) (\<lambda>arts. bnd (py_iter arts) (\<lambda>artists. bnd (map_res artist_info artists) f))
         = f (map artist_projection (elements (field_or_null (JObj kvs) ''artists'')))"
proof (cases "map_of kvs ''artists''")
  case None
  then show ?thesis by (simp add: bnd_def field_or_null_def)
next
  case (Some a)
  with assms obtain xs where a: "a = JArr xs" and "list_all is_obj xs" by (cases a) simp_all
  with Some show ?thesis by (simp add: bnd_def field_or_null_def map_res_artists)
qed

lemma track_info_shaped:
  assumes "track_shaped t"
  shows "track_info t = Inr (track_projection t)"
proof -
  from assms obtain kvs where t: "t = JObj kvs" by (cases t) (simp_all add: track_shaped_def)
  from assms t have al: "case map_of kvs ''album'' of None \<Rightarrow> True | Some a \<Rightarrow> is_obj a"
    and ar: "case map_of kvs ''artists'' of None \<Rightarrow> True | Some (JArr xs) \<Rightarrow> list_all is_obj xs | Some _ \<Rightarrow> False"
    by (simp_all add: track_shaped_def)
  have sc: "\<And>k f. bnd (dict_get (JObj kvs) k JNull) f = f (field_or_null (JObj kvs) k)"
    by (simp add: bnd_def field_or_null_def)
  have ag: "\<And>k f. bnd (album_get (JObj kvs) k) f = f (field_or_null (field_or_null (JObj kvs) ''album'') k)"
    by (simp add: album_get_obj[OF al] bnd_def)
  show ?thesis
    unfolding t track_info_def
    by (simp only: sc artists_obj[OF ar] ag track_projection_def album_projection_def)
qed

lemma simplify_loop_shaped:
  assumes "list_all track_shaped ts"
  shows "simplify_loop ts acc = Inr (acc @ map track_projection ts)"
  using assms
  by (induction ts arbitrary: acc) (simp_all add: track_info_shaped bnd_def)

text \<open>
  C6, as amended. For a remote search result with N track items of the remote shape (each a
  dictionary whose album, if it has one, is a dictionary and whose artists, if it has
  them, are a list of dictionaries), GET /search answers with the array of the N reduced
  tracks, in order, each with exactly the keys id, name, artists, album, href, uri,
  preview_url, popularity and duration_ms. A missing scalar field and a missing field of
  the album or of an artist is null; missing artists are the empty list; a missing album
  is the album summary whose six fields are null.
\<close>

theorem search_reshaping:
  assumes "gate_passed e" and "map_of (args req) ''q'' = Some q" and "q \<noteq> []"
    and "sp_search e q ''track'' = Inr (JObj r)"
    and "map_of r ''tracks'' = Some (JObj t)" and "map_of t ''items'' = Some (JArr items)"
    and "list_all track_shaped items"
  shows "fst (search_songs e req) = Response 200 (JArr (map track_projection items))
         \<and> length (map track_projection items) = length items
         \<and> list_all (\<lambda>out. map fst (fields out) = reduced_keys) (map track_projection items)"
proof -
  obtain tok where g: "require_authentication e = (Inr (True, tok), [GetCachedToken])"
    using gate_open[OF assms(1)] by blast
  have "simplify_results (JObj r) = Inr (map track_projection items)"
    using assms(5,6) by (simp add: simplify_results_def bnd_def simplify_loop_shaped[OF assms(7)])
  with g assms(2,3,4) have "fst (search_songs e req) = Response 200 (JArr (map track_projection items))"
    by (simp add: search_songs_def)
  moreover have "list_all (\<lambda>out. map fst (fields out) = reduced_keys) (map track_projection items)"
    by (simp add: list_all_iff track_projection_def reduced_keys_def)
  ultimately show ?thesis by simp
qed

theorem search_reshaping_witness:
  "fst (search_songs env_ok (req_of [(''q'', ''song'')] None))
     = Response 200 (JArr (map track_projection [track0, JObj []]))
   \<and> length (map track_projection [track0, JObj []]) = 2
   \<and> track_shaped track0 \<and> track_shaped (JObj [])"
proof -
  have a: "map_of (args (req_of [(''q'', ''song'')] None)) ''q'' = Some ''song''" by (simp add: req_of_def)
  have b: "''song'' \<noteq> []" by simp
  have c: "sp_search env_ok ''song'' ''track'' = Inr (JObj [(''tracks'', JObj [(''items'', JArr [track0, JObj []])])])"
    by (simp add: env_ok_def)
  have d: "map_of [(''tracks'', JObj [(''items'', JArr [track0, JObj []])])] ''tracks'' = Some (JObj [(''items'', JArr [track0, JObj []])])"
    by simp
  have f: "map_of [(''items'', JArr [track0, JObj []])] ''items'' = Some (JArr [track0, JObj []])" by simp
  have s: "track_shaped track0 \<and> track_shaped (JObj [])" by (simp add: track_shaped_def track0_def)
  then have h: "list_all track_shaped [track0, JObj []]" by simp
  from search_reshaping [OF gate_passed_env_ok a b c d f h] s show ?thesis by simp
qed

text \<open>
  C6 as stated fails on a track item without artists and without album: it has no
  \<^verbatim>\<open>artists\<close> field, and the response holds the empty list there, not null, and an
  album summary of six nulls.
\<close>

theorem search_missing_artists_counterexample:
  "map_of (fields (JObj [])) ''artists'' = None
   \<and> fst (search_songs env_bare (req_of [(''q'', ''song'')] None))
     = Response 200 (JArr [JObj
         [(''id'', JNull), (''name'', JNull), (''artists'', JArr []),
          (''album'', JObj [(''id'', JNull), (''name'', JNull), (''release_date'', JNull),
                            (''total_tracks'', JNull), (''images'', JNull), (''href'', JNull)]),
          (''href'', JNull), (''uri'', JNull), (''preview_url'', JNull),
          (''popularity'', JNull), (''duration_ms'', JNull)]])
   \<and> JArr [] \<noteq> JNull"
  by (simp add: search_songs_def require_authentication_def simplify_results_def track_info_def
      album_get_def artist_info_def bnd_def env_bare_def example_defs)

section \<open>Rejections by the remote API\<close>

text \<open>
  C4. The claim asks for status 400 with the remote message on every proxied operation.
  On GET /playlists and GET /search of a logged-in session whose remote call raises
  \<^verbatim>\<open>SpotifyException\<close>, the handler has no \<^verbatim>\<open>try\<close> around the call and the
  exception escapes it; no 400 is returned.
\<close>

theorem playlists_rejection_escapes:
  "gate_passed env_rejecting
   \<and> sp_current_user_playlists env_rejecting = Inl (SpotifyException ''http status: 429'')
   \<and> get_playlists env_rejecting
       = (Raised (SpotifyException ''http status: 429''), [GetCachedToken, SpCurrentUserPlaylists])
   \<and> search_songs env_rejecting (req_of [(''q'', ''song'')] None)
       = (Raised (SpotifyException ''http status: 429''), [GetCachedToken, ReadArg ''q'', SpSearch ''song'' ''track''])"
proof -
  have "get_playlists env_rejecting
       = (Raised (SpotifyException ''http status: 429''), [GetCachedToken, SpCurrentUserPlaylists])"
    by (simp add: get_playlists_def require_authentication_def example_defs)
  moreover have "search_songs env_rejecting (req_of [(''q'', ''song'')] None)
       = (Raised (SpotifyException ''http status: 429''), [GetCachedToken, ReadArg ''q'', SpSearch ''song'' ''track''])"
    by (simp add: search_songs_def require_authentication_def example_defs)
  moreover have "sp_current_user_playlists env_rejecting = Inl (SpotifyException ''http status: 429'')"
    by (simp add: example_defs)
  ultimately show ?thesis using gate_passed_env_rejecting by blast
qed

text \<open>
  The four other handlers catch the exception and answer 400 with \<^verbatim>\<open>str(e)\<close>.
\<close>

lemma rejection_answered_400:
  assumes "gate_passed e"
  shows "sp_track e tid = Inl (SpotifyException m) \<Longrightarrow>
           fst (get_track_details e tid) = Response 400 (JObj [(''error'', JStr m)])"
    and "json_get req ''track_ids'' = Inr ts \<Longrightarrow> truthy ts \<Longrightarrow>
         sp_playlist_add_items e pid ts = Inl (SpotifyException m) \<Longrightarrow>
           fst (add_to_playlist e req pid) = Response 400 (JObj [(''error'', JStr m)])"
    and "json_get req ''track_id'' = Inr v \<Longrightarrow> truthy v \<Longrightarrow>
         sp_start_playback e [''spotify:track:'' @ format_value e v] = Inl (SpotifyException m) \<Longrightarrow>
           fst (play_song e req) = Response 400 (JObj [(''error'', JStr m)])"
    and "json_get req ''track_id'' = Inr v \<Longrightarrow> truthy v \<Longrightarrow>
         sp_add_to_queue e v = Inl (SpotifyException m) \<Longrightarrow>
           fst (queue_song e req) = Response 400 (JObj [(''error'', JStr m)])"
proof -
  obtain tok where g: "require_authentication e = (Inr (True, tok), [GetCachedToken])"
    using gate_open[OF assms] by blast
  show "sp_track e tid = Inl (SpotifyException m) \<Longrightarrow>
           fst (get_track_details e tid) = Response 400 (JObj [(''error'', JStr m)])"
    by (simp add: g get_track_details_def error_body_def)
  show "json_get req ''track_ids'' = Inr ts \<Longrightarrow> truthy ts \<Longrightarrow>
         sp_playlist_add_items e pid ts = Inl (SpotifyException m) \<Longrightarrow>
           fst (add_to_playlist e req pid) = Response 400 (JObj [(''error'', JStr m)])"
    by (simp add: g add_to_playlist_def error_body_def)
  show "json_get req ''track_id'' = Inr v \<Longrightarrow> truthy v \<Longrightarrow>
         sp_start_playback e [''spotify:track:'' @ format_value e v] = Inl (SpotifyException m) \<Longrightarrow>
           fst (play_song e req) = Response 400 (JObj [(''error'', JStr m)])"
    by (simp add: g play_song_def error_body_def)
  show "json_get req ''track_id'' = Inr v \<Longrightarrow> truthy v \<Longrightarrow>
         sp_add_to_queue e v = Inl (SpotifyException m) \<Longrightarrow>
           fst (queue_song e req) = Response 400 (JObj [(''error'', JStr m)])"
    by (simp add: g queue_song_def error_body_def)
qed

section \<open>The callback\<close>

text \<open>
  C7, as amended. GET /callback dispatches on its query parameters in this order: if
  \<^verbatim>\<open>error\<close> is present and not empty, it returns 400 with \<^verbatim>\<open>{"error": <error>}\<close> and
  attempts no exchange; otherwise, if \<^verbatim>\<open>code\<close> is present and not empty, it performs
  one exchange and returns \<^verbatim>\<open>{"status": "Authenticated successfully."}\<close> when the
  exchange returns a token record, and 400 with \<^verbatim>\<open>{"error": "Authentication failed."}\<close>
  when it returns none; if neither is present and not empty, it returns 400 with
  \<^verbatim>\<open>{"error": "Authentication failed."}\<close> and attempts no exchange.
\<close>

theorem callback_dispatch:
  "(map_of (args req) ''error'' = Some er \<and> er \<noteq> [] \<longrightarrow>
      callback e req = (Response 400 (JObj [(''error'', JStr er)]), [ReadArg ''code'', ReadArg ''error'']))
   \<and> (map_of (args req) ''error'' \<in> {None, Some []} \<and> map_of (args req) ''code'' = Some c \<and> c \<noteq> []
        \<and> get_access_token e c = Inr tok \<and> truthy tok \<longrightarrow>
      callback e req = (Response 200 (JObj [(''status'', JStr ''Authenticated successfully.'')]),
                        [ReadArg ''code'', ReadArg ''error'', GetAccessToken c]))
   \<and> (map_of (args req) ''error'' \<in> {None, Some []} \<and> map_of (args req) ''code'' = Some c \<and> c \<noteq> []
        \<and> get_access_token e c = Inr tok \<and> \<not> truthy tok \<longrightarrow>
      callback e req = (Response 400 (JObj [(''error'', JStr ''Authentication failed.'')]),
                        [ReadArg ''code'', ReadArg ''error'', GetAccessToken c]))
   \<and> (map_of (args req) ''error'' \<in> {None, Some []} \<and> map_of (args req) ''code'' \<in> {None, Some []} \<longrightarrow>
      callback e req = (Response 400 (JObj [(''error'', JStr ''Authentication failed.'')]),
                        [ReadArg ''code'', ReadArg ''error'']))"
  by (auto simp: callback_def error_body_def)

theorem callback_dispatch_witness:
  "callback env_ok (req_of [(''error'', ''access_denied'')] None)
     = (Response 400 (JObj [(''error'', JStr ''access_denied'')]), [ReadArg ''code'', ReadArg ''error''])
   \<and> callback env_ok (req_of [(''code'', ''abc'')] None)
     = (Response 200 (JObj [(''status'', JStr ''Authenticated successfully.'')]),
        [ReadArg ''code'', ReadArg ''error'', GetAccessToken ''abc''])
   \<and> callback env_logged_out (req_of [] None)
     = (Response 400 (JObj [(''error'', JStr ''Authentication failed.'')]), [ReadArg ''code'', ReadArg ''error''])"
proof -
  have 1: "map_of (args (req_of [(''error'', ''access_denied'')] None)) ''error'' = Some ''access_denied'' \<and> ''access_denied'' \<noteq> []"
    by (simp add: req_of_def)
  have 2: "map_of (args (req_of [(''code'', ''abc'')] None)) ''error'' \<in> {None, Some []}
           \<and> map_of (args (req_of [(''code'', ''abc'')] None)) ''code'' = Some ''abc'' \<and> ''abc'' \<noteq> []
           \<and> get_access_token env_ok ''abc'' = Inr token0 \<and> truthy token0"
    by (simp add: example_defs)
  have 3: "map_of (args (req_of [] None)) ''error'' \<in> {None, Some []}
           \<and> map_of (args (req_of [] None)) ''code'' \<in> {None, Some []}"
    by (simp add: req_of_def)
  from callback_dispatch [where req = "req_of [(''error'', ''access_denied'')] None" and er = "''access_denied''" and e = env_ok] 1
  have a: "callback env_ok (req_of [(''error'', ''access_denied'')] None)
     = (Response 400 (JObj [(''error'', JStr ''access_denied'')]), [ReadArg ''code'', ReadArg ''error''])"
    by blast
  from callback_dispatch [where req = "req_of [(''code'', ''abc'')] None" and c = "''abc''" and e = env_ok and tok = token0] 2
  have b: "callback env_ok (req_of [(''code'', ''abc'')] None)
     = (Response 200 (JObj [(''status'', JStr ''Authenticated successfully.'')]),
        [ReadArg ''code'', ReadArg ''error'', GetAccessToken ''abc''])"
    by blast
  from callback_dispatch [where req = "req_of [] None" and e = env_logged_out] 3
  have c: "callback env_logged_out (req_of [] None)
     = (Response 400 (JObj [(''error'', JStr ''Authentication failed.'')]), [ReadArg ''code'', ReadArg ''error''])"
    by blast
  from a b c show ?thesis by blast
qed

text \<open>
  C7 as stated fails on \<^verbatim>\<open>/callback?error=&code=abc\<close>: \<^verbatim>\<open>error\<close> is present, and the
  handler performs the exchange and answers 200.
\<close>

theorem callback_empty_error_counterexample:
  "map_of (args (req_of [(''error'', ''''), (''code'', ''abc'')] None)) ''error'' = Some ''''
   \<and> callback env_ok (req_of [(''error'', ''''), (''code'', ''abc'')] None)
     = (Response 200 (JObj [(''status'', JStr ''Authenticated successfully.'')]),
        [ReadArg ''code'', ReadArg ''error'', GetAccessToken ''abc''])"
  by (simp add: callback_def example_defs)

end
